theory Spec2Isabelle
  imports Main "HOL-Library.Word" "HOL-Library.Sublist"
begin

text \<open>
  A model of the \<open>SearchBar\<close> component (\<open>src/app/components/SearchBar.tsx\<close>): the
  selection handler \<open>handleSearch\<close>, the debounced \<open>fetchSuggestions\<close>, and the
  component as a transition system over user input, time and fetch responses. Strings
  and the JavaScript built-ins are modelled first, then the component, then its
  properties.
\<close>

section \<open>JavaScript strings and the built-ins the component calls\<close>

text \<open>
  A JavaScript string is a sequence of 16-bit code units; \<open>length\<close>, \<open>split\<close>,
  \<open>startsWith\<close>, \<open>===\<close> and \<open>trim\<close> all work on code units. \<open>js\<close> writes an ASCII
  literal as such a sequence.
\<close>

type_synonym js_string = "16 word list"

definition js :: "string \<Rightarrow> js_string" where
  "js s = map (\<lambda>c. of_nat (of_char c)) s"

text \<open>Exceptions that can arise in the component, as values.\<close>

datatype js_error =
    URIError                  \<comment> \<open>\<open>encodeURIComponent\<close> on an unpaired surrogate\<close>
  | NetworkError              \<comment> \<open>\<open>fetch\<close> rejected\<close>
  | ApiRequestFailed nat      \<comment> \<open>\<open>new Error(`API request failed: ${response.status}`)\<close>\<close>
  | JsonSyntaxError           \<comment> \<open>\<open>response.json()\<close> rejected\<close>

subsection \<open>\<open>String.prototype.split(" ")\<close>, \<open>slice(0, 2)\<close>, \<open>join(" ")\<close>\<close>

text \<open>
  \<open>s.split(" ")\<close> cuts at every single U+0020 and keeps empty pieces; the empty string
  gives one empty piece. The result is never empty, so the first \<open>case\<close> branch below
  is never taken.
\<close>

fun split_sp :: "js_string \<Rightarrow> js_string list" where
  "split_sp [] = [[]]"
| "split_sp (c # cs) =
     (if c = 0x20 then [] # split_sp cs
      else (case split_sp cs of [] \<Rightarrow> [[c]] | p # ps \<Rightarrow> (c # p) # ps))"

fun join_sp :: "js_string list \<Rightarrow> js_string" where
  "join_sp [] = []"
| "join_sp [p] = p"
| "join_sp (p # q # ps) = p @ [0x20] @ join_sp (q # ps)"

subsection \<open>\<open>String.prototype.trim\<close>\<close>

text \<open>The code units of WhiteSpace and LineTerminator (ECMA-262, 12.2 and 12.3).\<close>

definition is_white :: "16 word \<Rightarrow> bool" where
  "is_white c \<longleftrightarrow>
     (0x9 \<le> c \<and> c \<le> 0xD) \<or> c = 0x20 \<or> c = 0xA0 \<or> c = 0x1680 \<or>
     (0x2000 \<le> c \<and> c \<le> 0x200A) \<or> c = 0x2028 \<or> c = 0x2029 \<or> c = 0x202F \<or>
     c = 0x205F \<or> c = 0x3000 \<or> c = 0xFEFF"

definition trim :: "js_string \<Rightarrow> js_string" where
  "trim s = rev (dropWhile is_white (rev (dropWhile is_white s)))"

subsection \<open>\<open>isNaN(Number(s))\<close>\<close>

text \<open>
  \<open>Number(s)\<close> is NaN exactly when the trimmed string is neither empty nor a
  StrNumericLiteral (ECMA-262, 7.1.4.1.1): a signed decimal literal (digits with an
  optional fraction and exponent, or \<open>Infinity\<close>) or an unsigned binary, octal or
  hexadecimal integer literal.
\<close>

definition is_digit :: "16 word \<Rightarrow> bool" where
  "is_digit c \<longleftrightarrow> 0x30 \<le> c \<and> c \<le> 0x39"

definition is_hex_digit :: "16 word \<Rightarrow> bool" where
  "is_hex_digit c \<longleftrightarrow> is_digit c \<or> (0x41 \<le> c \<and> c \<le> 0x46) \<or> (0x61 \<le> c \<and> c \<le> 0x66)"

definition digits1 :: "(16 word \<Rightarrow> bool) \<Rightarrow> js_string \<Rightarrow> bool" where
  "digits1 d s \<longleftrightarrow> s \<noteq> [] \<and> list_all d s"

definition exponent_opt :: "js_string \<Rightarrow> bool" where
  "exponent_opt s =
     (case s of
        [] \<Rightarrow> True
      | c # r \<Rightarrow>
          (c = 0x65 \<or> c = 0x45) \<and>
          (case r of
             [] \<Rightarrow> False
           | d # r' \<Rightarrow> if d = 0x2B \<or> d = 0x2D then digits1 is_digit r' else digits1 is_digit r))"

definition unsigned_decimal :: "js_string \<Rightarrow> bool" where
  "unsigned_decimal s =
     (s = js ''Infinity'' \<or>
      (let ds = takeWhile is_digit s; r = dropWhile is_digit s in
       case r of
         [] \<Rightarrow> ds \<noteq> []
       | c # r' \<Rightarrow>
           if c = 0x2E
           then (ds \<noteq> [] \<or> takeWhile is_digit r' \<noteq> []) \<and> exponent_opt (dropWhile is_digit r')
           else ds \<noteq> [] \<and> exponent_opt r))"

definition non_decimal_integer :: "js_string \<Rightarrow> bool" where
  "non_decimal_integer s =
     (case s of
        z # x # r \<Rightarrow>
          z = 0x30 \<and>
          (if x = 0x62 \<or> x = 0x42 then digits1 (\<lambda>c. c = 0x30 \<or> c = 0x31) r
           else if x = 0x6F \<or> x = 0x4F then digits1 (\<lambda>c. 0x30 \<le> c \<and> c \<le> 0x37) r
           else if x = 0x78 \<or> x = 0x58 then digits1 is_hex_digit r
           else False)
      | _ \<Rightarrow> False)"

definition str_numeric_literal :: "js_string \<Rightarrow> bool" where
  "str_numeric_literal s =
     (non_decimal_integer s \<or>
      (case s of
         [] \<Rightarrow> False
       | c # r \<Rightarrow> if c = 0x2B \<or> c = 0x2D then unsigned_decimal r else unsigned_decimal s))"

definition isNaN_Number :: "js_string \<Rightarrow> bool" where
  "isNaN_Number s = (let t = trim s in \<not> (t = [] \<or> str_numeric_literal t))"

subsection \<open>\<open>encodeURIComponent\<close>\<close>

text \<open>
  ECMA-262, 19.2.6.5 (Encode): an unreserved code unit is copied; any other code point is
  written as the percent-escaped octets of its UTF-8 form; an unpaired surrogate throws
  URIError.
\<close>

definition is_alpha :: "16 word \<Rightarrow> bool" where
  "is_alpha c \<longleftrightarrow> (0x41 \<le> c \<and> c \<le> 0x5A) \<or> (0x61 \<le> c \<and> c \<le> 0x7A)"

definition uri_unreserved :: "16 word \<Rightarrow> bool" where
  "uri_unreserved c \<longleftrightarrow> is_alpha c \<or> is_digit c \<or> c \<in> set (js ''-_.!~*'()'')"

definition is_lead_surrogate :: "16 word \<Rightarrow> bool" where
  "is_lead_surrogate c \<longleftrightarrow> 0xD800 \<le> c \<and> c \<le> 0xDBFF"

definition is_trail_surrogate :: "16 word \<Rightarrow> bool" where
  "is_trail_surrogate c \<longleftrightarrow> 0xDC00 \<le> c \<and> c \<le> 0xDFFF"

definition utf8 :: "nat \<Rightarrow> nat list" where
  "utf8 cp =
     (if cp < 0x80 then [cp]
      else if cp < 0x800 then [0xC0 + cp div 0x40, 0x80 + cp mod 0x40]
      else if cp < 0x10000 then
        [0xE0 + cp div 0x1000, 0x80 + cp div 0x40 mod 0x40, 0x80 + cp mod 0x40]
      else
        [0xF0 + cp div 0x40000, 0x80 + cp div 0x1000 mod 0x40,
         0x80 + cp div 0x40 mod 0x40, 0x80 + cp mod 0x40])"

definition hex_digit :: "nat \<Rightarrow> 16 word" where
  "hex_digit n = (if n < 10 then 0x30 + of_nat n else 0x37 + of_nat n)"

definition percent :: "nat \<Rightarrow> js_string" where
  "percent b = [0x25, hex_digit (b div 16), hex_digit (b mod 16)]"

definition escape_cp :: "nat \<Rightarrow> js_string" where
  "escape_cp cp = concat (map percent (utf8 cp))"

definition prepend :: "js_string \<Rightarrow> js_error + js_string \<Rightarrow> js_error + js_string" where
  "prepend u r = (case r of Inl e \<Rightarrow> Inl e | Inr v \<Rightarrow> Inr (u @ v))"

fun encodeURIComponent :: "js_string \<Rightarrow> js_error + js_string" where
  "encodeURIComponent [] = Inr []"
| "encodeURIComponent (c # cs) =
     (if uri_unreserved c then prepend [c] (encodeURIComponent cs)
      else if is_trail_surrogate c then Inl URIError
      else if is_lead_surrogate c then
        (case cs of
           [] \<Rightarrow> Inl URIError
         | d # ds \<Rightarrow>
             if is_trail_surrogate d
             then prepend (escape_cp ((unat c - 0xD800) * 0x400 + (unat d - 0xDC00) + 0x10000))
                    (encodeURIComponent ds)
             else Inl URIError)
      else prepend (escape_cp (unat c)) (encodeURIComponent cs))"

section \<open>The component: data\<close>

text \<open>\<open>interface Suggestion\<close> and \<open>interface SearchBarProps\<close>.\<close>

record suggestion =
  suggestion :: js_string
  type :: js_string

datatype route_type = Course | Professor

text \<open>
  An optional prop that is absent (or \<open>null\<close>) is \<open>None\<close>; \<open>resetState\<close> records whether
  the callback was supplied.
\<close>

record props =
  initialValue :: js_string
  resetState :: bool
  course :: "js_string option"
  professor :: "js_string option"
  routeType :: "route_type option"

text \<open>
  The three \<open>useState\<close> cells, the debounce timer held by the \<open>useRef\<close>, the fetches
  awaiting their response, and logs of what the component did to the outside: URLs
  handed to \<open>fetch\<close>, arguments the debounced function ran with, \<open>console.error\<close>
  calls, \<open>resetState\<close> calls, \<open>router.push\<close> calls, and exceptions that left a
  handler uncaught.
\<close>

record search_state =
  searchInput :: js_string
  suggestions :: "suggestion list"
  isLoading :: bool
  pending :: "(nat \<times> js_string) option"
  inflight :: "js_string list"
  fetched :: "js_string list"
  invoked :: "js_string list"
  console :: "js_error list"
  resetCount :: nat
  pushed :: "js_string list"
  uncaught :: "js_error list"

section \<open>\<open>handleSearch\<close>\<close>

definition courseSuggestion :: "js_string \<Rightarrow> js_string" where
  "courseSuggestion sel = join_sp (take 2 (split_sp sel))"

text \<open>\<open>course && suggestion.startsWith(course) && routeType === "course"\<close>: the empty
  string is falsy.\<close>

definition isSameCourse :: "props \<Rightarrow> js_string \<Rightarrow> bool" where
  "isSameCourse p sel =
     (case course p of
        None \<Rightarrow> False
      | Some c \<Rightarrow> c \<noteq> [] \<and> prefix c sel \<and> routeType p = Some Course)"

definition isSameProfessor :: "props \<Rightarrow> js_string \<Rightarrow> bool" where
  "isSameProfessor p sel =
     (case professor p of
        None \<Rightarrow> False
      | Some n \<Rightarrow> n \<noteq> [] \<and> sel = n \<and> routeType p = Some Professor)"

definition isProfessor :: "suggestion list \<Rightarrow> js_string \<Rightarrow> bool" where
  "isProfessor ss sel =
     (find (\<lambda>s. suggestion s = sel \<and> type s = js ''professor'') ss \<noteq> None)"

text \<open>The value of the variable \<open>suggestion\<close> after the four-digit check.\<close>

definition nav_identifier :: "js_string \<Rightarrow> js_string" where
  "nav_identifier sel =
     (let parts = split_sp (courseSuggestion sel) in
      if length parts \<ge> 2 then
        (let coursePrefix = parts ! 0; courseNumber = parts ! 1 in
         if length courseNumber = 4 \<and> \<not> isNaN_Number courseNumber
         then coursePrefix @ [0x20] @ courseNumber
         else sel)
      else sel)"

definition handleSearch :: "props \<Rightarrow> js_string \<Rightarrow> search_state \<Rightarrow> search_state" where
  "handleSearch p sel s =
     (let s1 = s\<lparr>searchInput := sel, suggestions := []\<rparr>;
          s2 = (if \<not> (isSameCourse p sel \<or> isSameProfessor p sel) \<and> resetState p
                then s1\<lparr>resetCount := resetCount s1 + 1\<rparr> else s1)
      in case encodeURIComponent (nav_identifier sel) of
           Inl e \<Rightarrow> s2\<lparr>uncaught := uncaught s2 @ [e]\<rparr>
         | Inr u \<Rightarrow>
             s2\<lparr>pushed := pushed s2 @
                   [(if isProfessor (suggestions s) sel
                     then js ''/results?professor='' else js ''/results?course='') @ u]\<rparr>)"

text \<open>
  The sameness conditions as the specification words them (``course is non-null'',
  ``text equals professor''), for comparison with the two definitions above.
\<close>

definition spec_isSameCourse :: "props \<Rightarrow> js_string \<Rightarrow> bool" where
  "spec_isSameCourse p sel =
     (routeType p = Some Course \<and>
      (case course p of None \<Rightarrow> False | Some c \<Rightarrow> prefix c sel))"

definition spec_isSameProfessor :: "props \<Rightarrow> js_string \<Rightarrow> bool" where
  "spec_isSameProfessor p sel =
     (routeType p = Some Professor \<and> professor p = Some sel)"

text \<open>
  The whitespace-delimited tokens of a text, as the specification words the
  tokenization: the maximal runs of code units that are not whitespace. For comparison
  with \<open>split_sp\<close>, which is what the code does.
\<close>

fun tokens_from :: "js_string \<Rightarrow> js_string \<Rightarrow> js_string list" where
  "tokens_from cur [] = (if cur = [] then [] else [cur])"
| "tokens_from cur (c # cs) =
     (if is_white c
      then (if cur = [] then tokens_from [] cs else cur # tokens_from [] cs)
      else tokens_from (cur @ [c]) cs)"

definition spec_tokens :: "js_string \<Rightarrow> js_string list" where
  "spec_tokens s = tokens_from [] s"

text \<open>A string without unpaired surrogates.\<close>

fun well_formed :: "js_string \<Rightarrow> bool" where
  "well_formed [] = True"
| "well_formed (c # cs) =
     (if is_trail_surrogate c then False
      else if is_lead_surrogate c then
        (case cs of [] \<Rightarrow> False | d # ds \<Rightarrow> is_trail_surrogate d \<and> well_formed ds)
      else well_formed cs)"

section \<open>The debounced \<open>fetchSuggestions\<close>\<close>

text \<open>
  How a \<open>fetch\<close> ends: the promise rejects (transport failure), or a response arrives
  with its status and the result of \<open>response.json()\<close>, \<open>None\<close> when the body does not
  parse. \<open>response.ok\<close> holds for the statuses 200 to 299.
\<close>

datatype fetch_outcome = Rejected | Responded nat "suggestion list option"

definition response_ok :: "nat \<Rightarrow> bool" where
  "response_ok status \<longleftrightarrow> 200 \<le> status \<and> status \<le> 299"

text \<open>The \<open>try\<close> block once the \<open>fetch\<close> has settled: the data, or what is thrown.\<close>

definition try_block :: "fetch_outcome \<Rightarrow> js_error + suggestion list" where
  "try_block out =
     (case out of
        Rejected \<Rightarrow> Inl NetworkError
      | Responded status body \<Rightarrow>
          if \<not> response_ok status then Inl (ApiRequestFailed status)
          else (case body of None \<Rightarrow> Inl JsonSyntaxError | Some data \<Rightarrow> Inr data))"

text \<open>
  The rest of the async function after the \<open>await\<close>: \<open>try\<close>, \<open>catch\<close>, \<open>finally\<close>. The
  second component is what the function's promise rejects with, \<open>None\<close> when it fulfils.
\<close>

definition resume :: "fetch_outcome \<Rightarrow> search_state \<Rightarrow> search_state \<times> js_error option" where
  "resume out s =
     (case try_block out of
        Inr data \<Rightarrow> (s\<lparr>suggestions := data, isLoading := False\<rparr>, None)
      | Inl error \<Rightarrow>
          (s\<lparr>console := console s @ [error], suggestions := [], isLoading := False\<rparr>, None))"

text \<open>
  The function body up to the \<open>await\<close>, run when the debounce timer fires. An
  \<open>encodeURIComponent\<close> that throws is inside the \<open>try\<close>: no request is made.
\<close>

definition fetchSuggestions :: "js_string \<Rightarrow> search_state \<Rightarrow> search_state" where
  "fetchSuggestions input s0 =
     (let s = s0\<lparr>invoked := invoked s0 @ [input]\<rparr>;
          trimmedInput = trim input
      in if length trimmedInput > 1 then
           (case encodeURIComponent trimmedInput of
              Inl error \<Rightarrow>
                s\<lparr>console := console s @ [error], suggestions := [], isLoading := False\<rparr>
            | Inr q \<Rightarrow>
                (let url = js ''/api/courses/search?query='' @ q
                 in s\<lparr>isLoading := True, inflight := inflight s @ [url],
                      fetched := fetched s @ [url]\<rparr>))
         else s\<lparr>suggestions := []\<rparr>)"

text \<open>
  \<open>debounce(f, 300)\<close> of lodash with its default options: every call stores its
  argument and restarts the wait; \<open>f\<close> runs with the last argument once 300 ms have
  passed without a call. \<open>pending\<close> holds the milliseconds left and that argument.
\<close>

definition wait :: nat where
  "wait = 300"

definition handleInputChange :: "js_string \<Rightarrow> search_state \<Rightarrow> search_state" where
  "handleInputChange input s = s\<lparr>searchInput := input, pending := Some (wait, input)\<rparr>"

definition elapse :: "nat \<Rightarrow> search_state \<Rightarrow> search_state" where
  "elapse d s =
     (case pending s of
        None \<Rightarrow> s
      | Some (r, input) \<Rightarrow>
          if d < r then s\<lparr>pending := Some (r - d, input)\<rparr>
          else fetchSuggestions input (s\<lparr>pending := None\<rparr>))"

section \<open>The component as a transition system\<close>

text \<open>
  What can happen to a mounted component: the user changes the input; time passes;
  the response of the \<open>i\<close>-th outstanding fetch arrives (in any order); a list item is
  clicked (the list is shown only while not loading); Enter is pressed or the search
  icon is clicked (both select the first suggestion); the parent passes a new
  \<open>initialValue\<close>.
\<close>

datatype event =
    Change js_string
  | Elapse nat
  | Settle nat fetch_outcome
  | ClickItem nat
  | PressEnter
  | ClickIcon
  | NewInitialValue js_string

definition settle :: "nat \<Rightarrow> fetch_outcome \<Rightarrow> search_state \<Rightarrow> search_state" where
  "settle i out s =
     (if i < length (inflight s) then
        (case resume out (s\<lparr>inflight := take i (inflight s) @ drop (Suc i) (inflight s)\<rparr>) of
           (s', None) \<Rightarrow> s'
         | (s', Some e) \<Rightarrow> s'\<lparr>uncaught := uncaught s' @ [e]\<rparr>)
      else s)"

definition selectFirst :: "props \<Rightarrow> search_state \<Rightarrow> search_state" where
  "selectFirst p s =
     (case suggestions s of [] \<Rightarrow> s | x # _ \<Rightarrow> handleSearch p (suggestion x) s)"

fun step :: "props \<Rightarrow> search_state \<Rightarrow> event \<Rightarrow> search_state" where
  "step p s (Change input) = handleInputChange input s"
| "step p s (Elapse d) = elapse d s"
| "step p s (Settle i out) = settle i out s"
| "step p s (ClickItem i) =
     (if i < length (suggestions s) \<and> \<not> isLoading s
      then handleSearch p (suggestion (suggestions s ! i)) s else s)"
| "step p s PressEnter = selectFirst p s"
| "step p s ClickIcon = selectFirst p s"
| "step p s (NewInitialValue v) =
     s\<lparr>searchInput := v, suggestions := (if v = [] then [] else suggestions s)\<rparr>"

definition init :: "props \<Rightarrow> search_state" where
  "init p =
     \<lparr>searchInput = initialValue p, suggestions = [], isLoading = False, pending = None,
      inflight = [], fetched = [], invoked = [], console = [], resetCount = 0,
      pushed = [], uncaught = []\<rparr>"

definition run :: "props \<Rightarrow> event list \<Rightarrow> search_state" where
  "run p evs = foldl (step p) (init p) evs"

text \<open>A burst of input changes: each is followed by the given gap in milliseconds.\<close>

fun burst :: "(js_string \<times> nat) list \<Rightarrow> event list" where
  "burst [] = []"
| "burst ((input, gap) # xs) = Change input # Elapse gap # burst xs"

section \<open>Example data\<close>

text \<open>Props of a page that shows nothing yet, and of a course page.\<close>

definition home_page :: props where
  "home_page =
     \<lparr>initialValue = [], resetState = True, course = None, professor = None,
      routeType = None\<rparr>"

definition on_course_page :: "js_string \<Rightarrow> props" where
  "on_course_page c =
     \<lparr>initialValue = [], resetState = True, course = Some c, professor = None,
      routeType = Some Course\<rparr>"

definition os_course :: suggestion where
  "os_course = \<lparr>suggestion = js ''CSE 3320 OPERATING SYSTEMS'', type = js ''course''\<rparr>"

definition jane_smith :: suggestion where
  "jane_smith = \<lparr>suggestion = js ''Jane Smith'', type = js ''professor''\<rparr>"

definition anna_lee :: suggestion where
  "anna_lee = \<lparr>suggestion = js ''Anna 2010 Lee'', type = js ''professor''\<rparr>"

text \<open>A suggestion whose text is one unpaired surrogate, as \<open>JSON.parse\<close> gives for
  \<open>"\ud800"\<close>.\<close>

definition lone_surrogate :: suggestion where
  "lone_surrogate = \<lparr>suggestion = [0xD800], type = js ''professor''\<rparr>"

text \<open>Texts with two spaces between the first two words, a professor whose text has
  only two pieces, and a professor whose first piece is an unpaired lead surrogate.\<close>

definition two_spaces :: suggestion where
  "two_spaces = \<lparr>suggestion = js ''CSE  3320 OPERATING SYSTEMS'', type = js ''course''\<rparr>"

definition anna_two_spaces :: suggestion where
  "anna_two_spaces = \<lparr>suggestion = js ''Anna  2010 Lee'', type = js ''professor''\<rparr>"

definition anna_short :: suggestion where
  "anna_short = \<lparr>suggestion = js ''Anna 2010'', type = js ''professor''\<rparr>"

definition lone_lead :: js_string where
  "lone_lead = [0xD800]"

definition surrogate_2010 :: suggestion where
  "surrogate_2010 = \<lparr>suggestion = lone_lead @ js '' 2010 Lee'', type = js ''professor''\<rparr>"

text \<open>A freshly mounted component that shows the list \<open>ss\<close>.\<close>

definition showing :: "props \<Rightarrow> suggestion list \<Rightarrow> search_state" where
  "showing p ss = (init p)\<lparr>suggestions := ss\<rparr>"

text \<open>The user typed \<open>cse\<close> and the fetch for it is outstanding.\<close>

definition loading_one :: search_state where
  "loading_one = run home_page [Change (js ''cse''), Elapse 300]"

text \<open>Two overlapping fetches, for \<open>cs\<close> and then for \<open>jane\<close>; the second one has been
  answered, the first has not.\<close>

definition second_answered :: search_state where
  "second_answered =
     run home_page
       [Change (js ''cs''), Elapse 300, Change (js ''jane''), Elapse 300,
        Settle 1 (Responded 200 (Some [jane_smith]))]"

section \<open>Properties of the string helpers\<close>

lemma split_sp_nonempty: "split_sp s \<noteq> []"
  by (induction s) (auto split: list.splits)

lemma split_sp_no_space: "p \<in> set (split_sp s) \<Longrightarrow> 0x20 \<notin> set p"
  by (induction s arbitrary: p) (auto split: list.splits if_splits)

lemma split_sp_space_free: "0x20 \<notin> set p \<Longrightarrow> split_sp p = [p]"
  by (induction p) auto

lemma split_sp_append:
  "0x20 \<notin> set p \<Longrightarrow> split_sp (p @ 0x20 # r) = p # split_sp r"
  by (induction p) auto

text \<open>Splitting undoes joining, for pieces that hold no space.\<close>

lemma split_join:
  "ps \<noteq> [] \<Longrightarrow> \<forall>p \<in> set ps. 0x20 \<notin> set p \<Longrightarrow> split_sp (join_sp ps) = ps"
proof (induction ps rule: join_sp.induct)
  case 1
  then show ?case by simp
next
  case (2 p)
  then show ?case by (simp add: split_sp_space_free)
next
  case (3 p q ps)
  then show ?case by (simp add: split_sp_append)
qed

text \<open>The second split in \<open>handleSearch\<close> gives back the first two pieces of the first.\<close>

lemma split_courseSuggestion: "split_sp (courseSuggestion sel) = take 2 (split_sp sel)"
proof -
  have "take 2 (split_sp sel) \<noteq> []"
    using split_sp_nonempty[of sel] by (cases "split_sp sel") auto
  moreover have "\<forall>p \<in> set (take 2 (split_sp sel)). 0x20 \<notin> set p"
    using split_sp_no_space by (meson in_set_takeD)
  ultimately show ?thesis
    unfolding courseSuggestion_def by (rule split_join)
qed

text \<open>Joining undoes splitting.\<close>

lemma join_split: "join_sp (split_sp s) = s"
proof (induction s)
  case Nil
  then show ?case by simp
next
  case (Cons c cs)
  obtain q qs where q: "split_sp cs = q # qs"
    using split_sp_nonempty[of cs] by (cases "split_sp cs") auto
  with Cons show ?case by (cases qs) auto
qed

lemma join_two_more:
  "rest \<noteq> [] \<Longrightarrow> join_sp (t1 # t2 # rest) = t1 @ [0x20] @ t2 @ [0x20] @ join_sp rest"
  by (cases rest) auto

text \<open>The identifier in terms of the pieces of the selected text itself.\<close>

lemma nav_identifier_pieces:
  "nav_identifier sel =
     (if 2 \<le> length (split_sp sel) \<and> length (split_sp sel ! 1) = 4 \<and>
         \<not> isNaN_Number (split_sp sel ! 1)
      then split_sp sel ! 0 @ js '' '' @ split_sp sel ! 1
      else sel)"
  by (simp add: nav_identifier_def split_courseSuggestion Let_def js_def)

subsection \<open>Which pieces \<open>Number\<close> accepts\<close>

lemma digit_not_white: "is_digit c \<Longrightarrow> \<not> is_white c"
  by (auto simp: is_digit_def is_white_def word_le_nat_alt)

lemma alpha_not_white: "is_alpha c \<Longrightarrow> \<not> is_white c"
  by (auto simp: is_alpha_def is_white_def word_le_nat_alt)

lemma alpha_not_digit: "is_alpha c \<Longrightarrow> \<not> is_digit c"
  by (auto simp: is_alpha_def is_digit_def word_le_nat_alt)

lemma trim_keeps_head:
  "\<not> is_white c \<Longrightarrow> trim (c # cs) = c # rev (dropWhile is_white (rev cs))"
  by (simp add: trim_def dropWhile_append)

lemma length_trim: "length (trim s) \<le> length s"
proof -
  have "length (dropWhile is_white (rev (dropWhile is_white s))) \<le> length (dropWhile is_white s)"
    by (metis length_dropWhile_le length_rev)
  also have "\<dots> \<le> length s" by (rule length_dropWhile_le)
  finally show ?thesis by (simp add: trim_def)
qed

lemma dropWhile_none: "\<forall>x \<in> set xs. \<not> P x \<Longrightarrow> dropWhile P xs = xs"
  by (cases xs) auto

lemma trim_digits: "list_all is_digit t \<Longrightarrow> trim t = t"
proof -
  assume "list_all is_digit t"
  then have nw: "\<forall>x \<in> set t. \<not> is_white x"
    by (simp add: list_all_iff digit_not_white)
  then have "dropWhile is_white t = t"
    by (rule dropWhile_none)
  moreover have "dropWhile is_white (rev t) = rev t"
    using nw by (intro dropWhile_none) simp
  ultimately show ?thesis by (simp add: trim_def)
qed

text \<open>A non-empty string of decimal digits is numeric.\<close>

lemma digits_numeric:
  assumes "t \<noteq> []" and "list_all is_digit t"
  shows "\<not> isNaN_Number t"
proof -
  obtain c cs where t: "t = c # cs" using assms(1) by (cases t) auto
  have c: "is_digit c" using assms(2) t by simp
  have ns: "c \<noteq> 0x2B \<and> c \<noteq> 0x2D"
    using c by (auto simp: is_digit_def word_le_nat_alt)
  have tw: "takeWhile is_digit t = t" "dropWhile is_digit t = []"
    using assms(2) by (simp_all add: list_all_iff)
  have "unsigned_decimal t"
    by (simp add: unsigned_decimal_def Let_def tw assms(1))
  then have "str_numeric_literal t"
    using t ns by (simp add: str_numeric_literal_def)
  then show ?thesis
    using trim_digits[OF assms(2)] by (simp add: isNaN_Number_def Let_def)
qed

text \<open>A string shorter than \<open>Infinity\<close> that starts with a letter is not numeric.\<close>

lemma letter_first_not_numeric:
  assumes "t = c # cs" and "is_alpha c" and "length t < 8"
  shows "isNaN_Number t"
proof -
  let ?r = "rev (dropWhile is_white (rev cs))"
  have tr: "trim t = c # ?r"
    using assms(1,2) by (simp add: trim_keeps_head alpha_not_white)
  have len: "length (c # ?r) < 8"
    using length_trim[of t] assms(3) tr by simp
  have "length (js ''Infinity'') = 8" by (simp add: js_def)
  with len have ninf: "c # ?r \<noteq> js ''Infinity''" by (metis less_irrefl)
  have cfacts: "c \<noteq> 0x30" "c \<noteq> 0x2B" "c \<noteq> 0x2D" "c \<noteq> 0x2E" "\<not> is_digit c"
    using assms(2) by (auto simp: is_alpha_def is_digit_def word_le_nat_alt)
  have "\<not> non_decimal_integer (c # ?r)"
    using cfacts by (simp add: non_decimal_integer_def split: list.splits)
  moreover have "\<not> unsigned_decimal (c # ?r)"
    using cfacts ninf by (simp add: unsigned_decimal_def Let_def)
  ultimately have "\<not> str_numeric_literal (c # ?r)"
    using cfacts by (simp add: str_numeric_literal_def)
  then show ?thesis
    by (simp add: isNaN_Number_def Let_def tr)
qed

section \<open>Properties of \<open>handleSearch\<close>\<close>

text \<open>
  C3, as stated. In \<open>CSE  3320 OPERATING SYSTEMS\<close>, with two spaces after \<open>CSE\<close>, the
  first two whitespace-delimited tokens are \<open>CSE\<close> and \<open>3320\<close>, and the second is
  exactly 4 characters long and numeric, so the identifier should be \<open>CSE 3320\<close>. The
  code splits at every single space: its second piece is empty and the identifier is
  the original text.
\<close>

theorem identifier_claim_counterexample:
  "spec_tokens (suggestion two_spaces) =
     [js ''CSE'', js ''3320'', js ''OPERATING'', js ''SYSTEMS''] \<and>
   length (js ''3320'') = 4 \<and> list_all is_digit (js ''3320'') \<and>
   \<not> isNaN_Number (js ''3320'') \<and>
   nav_identifier (suggestion two_spaces) = suggestion two_spaces \<and>
   nav_identifier (suggestion two_spaces) \<noteq> js ''CSE 3320''"
  by code_simp

text \<open>
  C3, amended. The identifier is computed from the pieces of the selected text cut at
  every single space (U+0020), empty pieces kept. If there are at least two pieces and
  the second is exactly four decimal digits, the identifier is piece 1, a space,
  piece 2. If there are fewer than two pieces, or the second piece is not exactly 4
  code units long, or its \<open>Number\<close> is NaN, or it starts with a letter, the identifier
  is the original, unsliced text. The identifier differs from the original text only
  if there are at least two pieces and the second is 4 code units long with a
  \<open>Number\<close> that is not NaN, and it is then piece 1, a space, piece 2.
\<close>

theorem identifier_by_pieces:
  "(2 \<le> length (split_sp sel) \<and> length (split_sp sel ! 1) = 4 \<and>
      list_all is_digit (split_sp sel ! 1) \<longrightarrow>
      nav_identifier sel = split_sp sel ! 0 @ js '' '' @ split_sp sel ! 1) \<and>
   (length (split_sp sel) < 2 \<or>
    (2 \<le> length (split_sp sel) \<and>
     (length (split_sp sel ! 1) \<noteq> 4 \<or> isNaN_Number (split_sp sel ! 1) \<or>
      (\<exists>c cs. split_sp sel ! 1 = c # cs \<and> is_alpha c))) \<longrightarrow>
      nav_identifier sel = sel) \<and>
   (nav_identifier sel \<noteq> sel \<longrightarrow>
      2 \<le> length (split_sp sel) \<and> length (split_sp sel ! 1) = 4 \<and>
      \<not> isNaN_Number (split_sp sel ! 1) \<and>
      nav_identifier sel = split_sp sel ! 0 @ js '' '' @ split_sp sel ! 1)"
proof -
  let ?t = "split_sp sel ! 1"
  let ?cond = "2 \<le> length (split_sp sel) \<and> length ?t = 4 \<and> \<not> isNaN_Number ?t"
  have yes: "?cond \<Longrightarrow> nav_identifier sel = split_sp sel ! 0 @ js '' '' @ ?t"
    by (simp add: nav_identifier_pieces)
  have no: "\<not> ?cond \<Longrightarrow> nav_identifier sel = sel"
    by (simp only: nav_identifier_pieces if_False)
  have digits: "length ?t = 4 \<Longrightarrow> list_all is_digit ?t \<Longrightarrow> \<not> isNaN_Number ?t"
    by (rule digits_numeric) auto
  have letter: "length ?t = 4 \<Longrightarrow> \<exists>c cs. ?t = c # cs \<and> is_alpha c \<Longrightarrow> isNaN_Number ?t"
  proof -
    assume l: "length ?t = 4" and "\<exists>c cs. ?t = c # cs \<and> is_alpha c"
    then obtain c cs where "?t = c # cs" and "is_alpha c" by blast
    with l show ?thesis
      using letter_first_not_numeric[of ?t c cs] by simp
  qed
  have a: "2 \<le> length (split_sp sel) \<and> length ?t = 4 \<and> list_all is_digit ?t \<longrightarrow>
      nav_identifier sel = split_sp sel ! 0 @ js '' '' @ ?t"
    using yes digits by blast
  have b: "length (split_sp sel) < 2 \<or>
      (2 \<le> length (split_sp sel) \<and>
       (length ?t \<noteq> 4 \<or> isNaN_Number ?t \<or> (\<exists>c cs. ?t = c # cs \<and> is_alpha c))) \<longrightarrow>
      nav_identifier sel = sel"
  proof
    assume h: "length (split_sp sel) < 2 \<or>
      (2 \<le> length (split_sp sel) \<and>
       (length ?t \<noteq> 4 \<or> isNaN_Number ?t \<or> (\<exists>c cs. ?t = c # cs \<and> is_alpha c)))"
    have "\<not> ?cond"
    proof
      assume c: ?cond
      then have "\<not> length (split_sp sel) < 2" by simp
      with h c have "\<exists>c cs. ?t = c # cs \<and> is_alpha c" by blast
      with c letter show False by blast
    qed
    then show "nav_identifier sel = sel" by (rule no)
  qed
  have c: "nav_identifier sel \<noteq> sel \<longrightarrow> ?cond \<and>
      nav_identifier sel = split_sp sel ! 0 @ js '' '' @ ?t"
    using yes no by blast
  from a b c show ?thesis by blast
qed

theorem identifier_by_pieces_witness:
  "nav_identifier (js ''CSE 3320 OPERATING SYSTEMS'') = js ''CSE 3320'' \<and>
   nav_identifier (js ''CSE 3320 OPERATING SYSTEMS'') \<noteq> js ''CSE 3320 OPERATING SYSTEMS'' \<and>
   nav_identifier (js ''CSE 332X OPERATING SYSTEMS'') = js ''CSE 332X OPERATING SYSTEMS'' \<and>
   nav_identifier (js ''Physics'') = js ''Physics'' \<and>
   nav_identifier (js ''CSE LABS'') = js ''CSE LABS'' \<and>
   nav_identifier (js ''CSE  3320 OPERATING SYSTEMS'') = js ''CSE  3320 OPERATING SYSTEMS''"
proof -
  have a: "split_sp (js ''CSE 3320 OPERATING SYSTEMS'') =
      [js ''CSE'', js ''3320'', js ''OPERATING'', js ''SYSTEMS'']"
    "length (js ''3320'') = 4" "list_all is_digit (js ''3320'')"
    "js ''CSE'' @ js '' '' @ js ''3320'' = js ''CSE 3320''"
    by code_simp+
  have a5: "js ''CSE 3320'' \<noteq> js ''CSE 3320 OPERATING SYSTEMS''"
    by code_simp
  have b: "split_sp (js ''CSE 332X OPERATING SYSTEMS'') =
      [js ''CSE'', js ''332X'', js ''OPERATING'', js ''SYSTEMS'']"
    "isNaN_Number (js ''332X'')"
    by code_simp+
  have c: "split_sp (js ''Physics'') = [js ''Physics'']"
    by code_simp
  have d: "split_sp (js ''CSE LABS'') = [js ''CSE'', js ''LABS'']"
    by code_simp
  have "js ''LABS'' = 0x4C # js ''ABS''" and "is_alpha 0x4C"
    by code_simp+
  then have d2: "\<exists>c cs. js ''LABS'' = c # cs \<and> is_alpha c"
    by blast
  have e: "split_sp (js ''CSE  3320 OPERATING SYSTEMS'') =
      [js ''CSE'', [], js ''3320'', js ''OPERATING'', js ''SYSTEMS'']"
    by code_simp
  have 1: "nav_identifier (js ''CSE 3320 OPERATING SYSTEMS'') = js ''CSE 3320''"
    using identifier_by_pieces[of "js ''CSE 3320 OPERATING SYSTEMS''"] a by simp
  have 2: "nav_identifier (js ''CSE 332X OPERATING SYSTEMS'') = js ''CSE 332X OPERATING SYSTEMS''"
    using identifier_by_pieces[of "js ''CSE 332X OPERATING SYSTEMS''"] b by simp
  have 3: "nav_identifier (js ''Physics'') = js ''Physics''"
    using identifier_by_pieces[of "js ''Physics''"] c by simp
  have 4: "nav_identifier (js ''CSE LABS'') = js ''CSE LABS''"
    using identifier_by_pieces[of "js ''CSE LABS''"] d d2 by simp
  have 5: "nav_identifier (js ''CSE  3320 OPERATING SYSTEMS'') = js ''CSE  3320 OPERATING SYSTEMS''"
    using identifier_by_pieces[of "js ''CSE  3320 OPERATING SYSTEMS''"] e by simp
  have 6: "nav_identifier (js ''CSE 3320 OPERATING SYSTEMS'') \<noteq> js ''CSE 3320 OPERATING SYSTEMS''"
    unfolding 1 by (rule a5)
  from 1 6 2 3 4 5 show ?thesis by blast
qed

text \<open>
  The comment in the code reads ``Check if the second part is a four-digit number'',
  but \<open>Number\<close> accepts more than digits: a signed or fractional second piece of 4
  code units is truncated as well.
\<close>

lemma signed_piece_truncated:
  "nav_identifier (js ''A -123 B'') = js ''A -123'' \<and>
   nav_identifier (js ''A 12.5 B'') = js ''A 12.5''"
  by code_simp

lemma isProfessor_iff:
  "isProfessor ss sel \<longleftrightarrow> (\<exists>x \<in> set ss. suggestion x = sel \<and> type x = js ''professor'')"
  by (auto simp: isProfessor_def find_None_iff)

lemma resetCount_handleSearch:
  "resetCount (handleSearch p sel s) =
     (if \<not> (isSameCourse p sel \<or> isSameProfessor p sel) \<and> resetState p
      then resetCount s + 1 else resetCount s)"
  by (simp add: handleSearch_def Let_def split: sum.splits)

lemma pushed_handleSearch:
  "pushed (handleSearch p sel s) =
     (case encodeURIComponent (nav_identifier sel) of
        Inl e \<Rightarrow> pushed s
      | Inr u \<Rightarrow>
          pushed s @ [(if isProfessor (suggestions s) sel
                       then js ''/results?professor='' else js ''/results?course='') @ u])"
  by (simp add: handleSearch_def Let_def split: sum.splits)

lemma uncaught_handleSearch:
  "uncaught (handleSearch p sel s) =
     (case encodeURIComponent (nav_identifier sel) of
        Inl e \<Rightarrow> uncaught s @ [e]
      | Inr u \<Rightarrow> uncaught s)"
  by (simp add: handleSearch_def Let_def split: sum.splits)

lemma handleSearch_loading:
  "isLoading (handleSearch p sel s) = isLoading s \<and>
   inflight (handleSearch p sel s) = inflight s"
  by (simp add: handleSearch_def Let_def split: sum.splits)

subsection \<open>When \<open>resetState\<close> is called\<close>

text \<open>
  C2, as stated. On a course page whose \<open>course\<close> prop is the empty string, a sameness
  condition of the specification holds (the route is a course route, the prop is
  non-null, and every text starts with the empty string), so \<open>resetState\<close> should not
  be called; the code calls it, because the empty string is falsy.
\<close>

theorem reset_claim_counterexample:
  "resetState (on_course_page []) \<and>
   (spec_isSameCourse (on_course_page []) (suggestion os_course) \<or>
    spec_isSameProfessor (on_course_page []) (suggestion os_course)) \<and>
   resetCount (handleSearch (on_course_page []) (suggestion os_course)
       (showing (on_course_page []) [os_course]))
     = resetCount (showing (on_course_page []) [os_course]) + 1"
  by (simp add: resetCount_handleSearch isSameCourse_def isSameProfessor_def
      spec_isSameCourse_def on_course_page_def)

text \<open>
  C2, amended. With \<open>resetState\<close> supplied, it is called exactly when neither sameness
  condition holds, where isSameCourse is: the route is a course route and \<open>course\<close> is
  present, non-empty and a prefix of the selected text; and isSameProfessor is: the
  route is a professor route and \<open>professor\<close> is present, non-empty and equal to the
  selected text.
\<close>

theorem reset_iff_not_same:
  assumes "resetState p"
  shows "resetCount (handleSearch p sel s) =
     (if (routeType p = Some Course \<and> (\<exists>c. course p = Some c \<and> c \<noteq> [] \<and> prefix c sel)) \<or>
         (routeType p = Some Professor \<and> sel \<noteq> [] \<and> professor p = Some sel)
      then resetCount s else resetCount s + 1)"
  using assms
  by (auto simp: resetCount_handleSearch isSameCourse_def isSameProfessor_def
      split: option.splits)

text \<open>Selecting the operating-systems course on the page of CSE 3320 does not call
  \<open>resetState\<close>; on the page of CSE 1234 it does.\<close>

theorem reset_iff_not_same_witness:
  "resetState (on_course_page (js ''CSE 3320'')) \<and>
   resetCount (handleSearch (on_course_page (js ''CSE 3320'')) (suggestion os_course)
       (showing (on_course_page (js ''CSE 3320'')) [os_course])) = 0 \<and>
   resetCount (handleSearch (on_course_page (js ''CSE 1234'')) (suggestion os_course)
       (showing (on_course_page (js ''CSE 1234'')) [os_course])) = 1"
proof -
  have a: "prefix (js ''CSE 3320'') (suggestion os_course)"
    "\<not> prefix (js ''CSE 1234'') (suggestion os_course)"
    "js ''CSE 3320'' \<noteq> []"
    by code_simp+
  show ?thesis
    using a
      reset_iff_not_same[of "on_course_page (js ''CSE 3320'')" "suggestion os_course"
        "showing (on_course_page (js ''CSE 3320'')) [os_course]"]
      reset_iff_not_same[of "on_course_page (js ''CSE 1234'')" "suggestion os_course"
        "showing (on_course_page (js ''CSE 1234'')) [os_course]"]
    by (simp add: on_course_page_def showing_def init_def)
qed

subsection \<open>Where the navigation goes\<close>

lemma prepend_Inr: "prepend u r = Inr v \<longleftrightarrow> (\<exists>w. r = Inr w \<and> v = u @ w)"
  by (auto simp: prepend_def split: sum.splits)

lemma unreserved_not_surrogate:
  "uri_unreserved c \<Longrightarrow> \<not> is_trail_surrogate c \<and> \<not> is_lead_surrogate c"
  by (auto simp: uri_unreserved_def is_trail_surrogate_def is_lead_surrogate_def
      is_alpha_def is_digit_def js_def word_le_nat_alt)

text \<open>\<open>encodeURIComponent\<close> returns exactly on the strings without unpaired surrogate.\<close>

lemma encode_total_iff: "(\<exists>u. encodeURIComponent s = Inr u) \<longleftrightarrow> well_formed s"
proof (induction s rule: well_formed.induct)
  case 1
  then show ?case by simp
next
  case (2 c cs)
  show ?case
  proof (cases "uri_unreserved c")
    case True
    with 2 unreserved_not_surrogate[of c] show ?thesis
      by (simp add: prepend_Inr)
  next
    case False
    with 2 show ?thesis
      by (auto simp: prepend_Inr split: list.splits)
  qed
qed

lemma encode_error: "encodeURIComponent s = Inl e \<Longrightarrow> e = URIError"
  by (induction s arbitrary: e rule: encodeURIComponent.induct)
     (auto simp: prepend_def split: if_splits list.splits sum.splits)

text \<open>
  C6, as stated. Selecting a professor-typed suggestion whose text is an unpaired
  surrogate requests no navigation at all: \<open>encodeURIComponent\<close> throws URIError, which
  leaves \<open>handleSearch\<close> uncaught before \<open>router.push\<close> is reached.
\<close>

theorem navigation_claim_counterexample:
  "isProfessor [lone_surrogate] (suggestion lone_surrogate) \<and>
   pushed (handleSearch home_page (suggestion lone_surrogate)
      (showing home_page [lone_surrogate])) = [] \<and>
   uncaught (handleSearch home_page (suggestion lone_surrogate)
      (showing home_page [lone_surrogate])) = [URIError]"
  by code_simp

text \<open>
  C6, amended. For every selection whose identifier holds no unpaired surrogate, the
  identifier URL-encodes to some \<open>u\<close> and exactly one navigation is requested: to
  \<open>/results?professor=u\<close> if the current suggestion list has an entry with exactly the
  selected text and type \<open>professor\<close>, and to \<open>/results?course=u\<close> otherwise. For an
  identifier with an unpaired surrogate, no navigation is requested and URIError leaves
  the handler.
\<close>

theorem navigation_target:
  "(well_formed (nav_identifier sel) \<longrightarrow>
      (\<exists>u. encodeURIComponent (nav_identifier sel) = Inr u \<and>
         pushed (handleSearch p sel s) = pushed s @
           [(if \<exists>x \<in> set (suggestions s). suggestion x = sel \<and> type x = js ''professor''
             then js ''/results?professor='' else js ''/results?course='') @ u])) \<and>
   (\<not> well_formed (nav_identifier sel) \<longrightarrow>
      pushed (handleSearch p sel s) = pushed s \<and>
      uncaught (handleSearch p sel s) = uncaught s @ [URIError])"
proof (cases "well_formed (nav_identifier sel)")
  case True
  then obtain u where "encodeURIComponent (nav_identifier sel) = Inr u"
    using encode_total_iff by blast
  with True show ?thesis
    by (simp add: pushed_handleSearch isProfessor_iff)
next
  case False
  then obtain e where e: "encodeURIComponent (nav_identifier sel) = Inl e"
    using encode_total_iff[of "nav_identifier sel"]
    by (cases "encodeURIComponent (nav_identifier sel)") auto
  then have "e = URIError"
    by (rule encode_error)
  with False e show ?thesis
    by (simp add: pushed_handleSearch uncaught_handleSearch)
qed

theorem navigation_target_witness:
  "well_formed (nav_identifier (suggestion jane_smith)) \<and>
   pushed (handleSearch home_page (suggestion jane_smith)
      (showing home_page [os_course, jane_smith]))
   = [js ''/results?professor=Jane%20Smith''] \<and>
   pushed (handleSearch home_page (suggestion os_course)
      (showing home_page [os_course, jane_smith]))
   = [js ''/results?course=CSE%203320''] \<and>
   \<not> well_formed (nav_identifier [0xDC00]) \<and>
   pushed (handleSearch home_page [0xDC00] (showing home_page [os_course, jane_smith])) = [] \<and>
   uncaught (handleSearch home_page [0xDC00] (showing home_page [os_course, jane_smith]))
   = [URIError]"
proof -
  have a: "well_formed (nav_identifier (suggestion jane_smith))"
    "well_formed (nav_identifier (suggestion os_course))"
    "encodeURIComponent (nav_identifier (suggestion jane_smith)) = Inr (js ''Jane%20Smith'')"
    "encodeURIComponent (nav_identifier (suggestion os_course)) = Inr (js ''CSE%203320'')"
    "\<exists>x \<in> set [os_course, jane_smith].
        suggestion x = suggestion jane_smith \<and> type x = js ''professor''"
    "\<not> (\<exists>x \<in> set [os_course, jane_smith].
        suggestion x = suggestion os_course \<and> type x = js ''professor'')"
    "js ''/results?professor='' @ js ''Jane%20Smith'' = js ''/results?professor=Jane%20Smith''"
    "js ''/results?course='' @ js ''CSE%203320'' = js ''/results?course=CSE%203320''"
    "\<not> well_formed (nav_identifier [0xDC00])"
    by code_simp+
  show ?thesis
    using a
      navigation_target[of "suggestion jane_smith" home_page
        "showing home_page [os_course, jane_smith]"]
      navigation_target[of "suggestion os_course" home_page
        "showing home_page [os_course, jane_smith]"]
      navigation_target[of "[0xDC00]" home_page
        "showing home_page [os_course, jane_smith]"]
    by (simp add: showing_def init_def)
qed

text \<open>
  C10, as stated. \<open>Anna  2010 Lee\<close>, with two spaces after \<open>Anna\<close>, is typed
  professor and its second whitespace-delimited token \<open>2010\<close> is exactly 4 characters
  long and numeric, yet the identifier is the full text and the navigation goes to
  \<open>/results?professor=Anna%20%202010%20Lee\<close>.
\<close>

theorem truncation_claim_counterexample:
  "isProfessor [anna_two_spaces] (suggestion anna_two_spaces) \<and>
   spec_tokens (suggestion anna_two_spaces) = [js ''Anna'', js ''2010'', js ''Lee''] \<and>
   length (js ''2010'') = 4 \<and> list_all is_digit (js ''2010'') \<and>
   \<not> isNaN_Number (js ''2010'') \<and>
   nav_identifier (suggestion anna_two_spaces) = suggestion anna_two_spaces \<and>
   pushed (handleSearch home_page (suggestion anna_two_spaces)
      (showing home_page [anna_two_spaces]))
     = [js ''/results?professor=Anna%20%202010%20Lee'']"
  by code_simp

text \<open>
  C10, amended. The truncation does not look at the category. For every selected text
  that the current list types as professor and whose pieces, cut at every single space,
  are at least two with the second exactly four decimal digits, the identifier is
  piece 1, a space, piece 2. It differs from the full text exactly when the text has a
  third piece. When that identifier holds no unpaired surrogate, the navigation goes
  to \<open>/results?professor=\<close> followed by its encoding; otherwise no navigation is
  requested and URIError leaves the handler.
\<close>

theorem professor_truncated:
  assumes "\<exists>x \<in> set (suggestions s). suggestion x = sel \<and> type x = js ''professor''"
    and "split_sp sel = t1 # t2 # rest"
    and "length t2 = 4" and "list_all is_digit t2"
  shows "nav_identifier sel = t1 @ js '' '' @ t2 \<and>
     (rest \<noteq> [] \<longrightarrow> nav_identifier sel \<noteq> sel) \<and>
     (rest = [] \<longrightarrow> nav_identifier sel = sel) \<and>
     (well_formed (t1 @ js '' '' @ t2) \<longrightarrow>
        (\<exists>u. encodeURIComponent (t1 @ js '' '' @ t2) = Inr u \<and>
           pushed (handleSearch p sel s) = pushed s @ [js ''/results?professor='' @ u])) \<and>
     (\<not> well_formed (t1 @ js '' '' @ t2) \<longrightarrow>
        pushed (handleSearch p sel s) = pushed s \<and>
        uncaught (handleSearch p sel s) = uncaught s @ [URIError])"
proof -
  have num: "\<not> isNaN_Number t2"
    using assms(3,4) by (intro digits_numeric) auto
  have ident: "nav_identifier sel = t1 @ js '' '' @ t2"
    using assms(2,3) num by (simp add: nav_identifier_pieces)
  have sel: "sel = join_sp (t1 # t2 # rest)"
    using join_split[of sel] assms(2) by simp
  have short: "rest = [] \<longrightarrow> nav_identifier sel = sel"
  proof
    assume "rest = []"
    then have "sel = t1 @ js '' '' @ t2"
      using sel by (simp add: js_def)
    with ident show "nav_identifier sel = sel" by simp
  qed
  have long: "rest \<noteq> [] \<longrightarrow> nav_identifier sel \<noteq> sel"
  proof
    assume "rest \<noteq> []"
    then have "length sel > length (t1 @ js '' '' @ t2)"
      using sel join_two_more[of rest t1 t2] by (simp add: js_def)
    then show "nav_identifier sel \<noteq> sel"
      using ident by auto
  qed
  have nav: "well_formed (t1 @ js '' '' @ t2) \<longrightarrow>
        (\<exists>u. encodeURIComponent (t1 @ js '' '' @ t2) = Inr u \<and>
           pushed (handleSearch p sel s) = pushed s @ [js ''/results?professor='' @ u])"
  proof
    assume "well_formed (t1 @ js '' '' @ t2)"
    then obtain u where u: "encodeURIComponent (t1 @ js '' '' @ t2) = Inr u"
      using encode_total_iff by blast
    with assms(1) ident show "\<exists>u. encodeURIComponent (t1 @ js '' '' @ t2) = Inr u \<and>
           pushed (handleSearch p sel s) = pushed s @ [js ''/results?professor='' @ u]"
      by (simp add: pushed_handleSearch isProfessor_iff)
  qed
  have err: "\<not> well_formed (t1 @ js '' '' @ t2) \<longrightarrow>
        pushed (handleSearch p sel s) = pushed s \<and>
        uncaught (handleSearch p sel s) = uncaught s @ [URIError]"
  proof
    assume "\<not> well_formed (t1 @ js '' '' @ t2)"
    then obtain e where e: "encodeURIComponent (t1 @ js '' '' @ t2) = Inl e"
      using encode_total_iff[of "t1 @ js '' '' @ t2"]
      by (cases "encodeURIComponent (t1 @ js '' '' @ t2)") auto
    then have "e = URIError" by (rule encode_error)
    with e ident show "pushed (handleSearch p sel s) = pushed s \<and>
        uncaught (handleSearch p sel s) = uncaught s @ [URIError]"
      by (simp add: pushed_handleSearch uncaught_handleSearch)
  qed
  from ident short long nav err show ?thesis by blast
qed

theorem professor_truncated_witness:
  "nav_identifier (suggestion anna_lee) = js ''Anna 2010'' \<and>
   nav_identifier (suggestion anna_lee) \<noteq> suggestion anna_lee \<and>
   pushed (handleSearch home_page (suggestion anna_lee) (showing home_page [anna_lee]))
     = [js ''/results?professor=Anna%202010''] \<and>
   nav_identifier (suggestion anna_short) = suggestion anna_short \<and>
   nav_identifier (suggestion surrogate_2010) = lone_lead @ js '' '' @ js ''2010'' \<and>
   pushed (handleSearch home_page (suggestion surrogate_2010)
      (showing home_page [surrogate_2010])) = [] \<and>
   uncaught (handleSearch home_page (suggestion surrogate_2010)
      (showing home_page [surrogate_2010])) = [URIError]"
proof -
  have a: "\<exists>x \<in> set (suggestions (showing home_page [anna_lee])).
        suggestion x = suggestion anna_lee \<and> type x = js ''professor''"
    "\<exists>x \<in> set (suggestions (showing home_page [anna_short])).
        suggestion x = suggestion anna_short \<and> type x = js ''professor''"
    "\<exists>x \<in> set (suggestions (showing home_page [surrogate_2010])).
        suggestion x = suggestion surrogate_2010 \<and> type x = js ''professor''"
    by code_simp+
  have b: "split_sp (suggestion anna_lee) = js ''Anna'' # js ''2010'' # [js ''Lee'']"
    "split_sp (suggestion anna_short) = js ''Anna'' # js ''2010'' # []"
    "split_sp (suggestion surrogate_2010) = lone_lead # js ''2010'' # [js ''Lee'']"
    by code_simp+
  have c: "length (js ''2010'') = 4" "list_all is_digit (js ''2010'')"
    by code_simp+
  have d: "js ''Anna'' @ js '' '' @ js ''2010'' = js ''Anna 2010''"
    "well_formed (js ''Anna 2010'')"
    "encodeURIComponent (js ''Anna 2010'') = Inr (js ''Anna%202010'')"
    "js ''/results?professor='' @ js ''Anna%202010'' = js ''/results?professor=Anna%202010''"
    "pushed (showing home_page [anna_lee]) = []"
    by code_simp+
  have d6: "js ''Anna 2010'' \<noteq> suggestion anna_lee"
    by code_simp
  have e: "\<not> well_formed (lone_lead @ js '' '' @ js ''2010'')"
    "pushed (showing home_page [surrogate_2010]) = []"
    "uncaught (showing home_page [surrogate_2010]) = []"
    by code_simp+
  have 1: "nav_identifier (suggestion anna_lee) = js ''Anna 2010'' \<and>
      nav_identifier (suggestion anna_lee) \<noteq> suggestion anna_lee \<and>
      pushed (handleSearch home_page (suggestion anna_lee) (showing home_page [anna_lee]))
        = [js ''/results?professor=Anna%202010'']"
    using professor_truncated[OF a(1) b(1) c, of home_page] d d6 by simp
  have 2: "nav_identifier (suggestion anna_short) = suggestion anna_short"
    using professor_truncated[OF a(2) b(2) c, of home_page] by blast
  have 3: "nav_identifier (suggestion surrogate_2010) = lone_lead @ js '' '' @ js ''2010'' \<and>
      pushed (handleSearch home_page (suggestion surrogate_2010)
        (showing home_page [surrogate_2010])) = [] \<and>
      uncaught (handleSearch home_page (suggestion surrogate_2010)
        (showing home_page [surrogate_2010])) = [URIError]"
    using professor_truncated[OF a(3) b(3) c, of home_page] e by simp
  from 1 2 3 show ?thesis by blast
qed

section \<open>Properties of the fetch lifecycle\<close>

subsection \<open>Failures and malformed bodies\<close>

text \<open>The \<open>catch\<close> clause takes every exception of the \<open>try\<close> block: the promise of the
  async function always fulfils.\<close>

lemma resume_fulfils: "snd (resume out s) = None"
  by (simp add: resume_def split: sum.splits)

lemma settle_resume:
  "i < length (inflight s) \<Longrightarrow>
   settle i out s =
     fst (resume out (s\<lparr>inflight := take i (inflight s) @ drop (Suc i) (inflight s)\<rparr>))"
  using resume_fulfils[of out "s\<lparr>inflight := take i (inflight s) @ drop (Suc i) (inflight s)\<rparr>"]
  by (auto simp: settle_def split: prod.splits option.splits)

text \<open>
  C7. When an outstanding fetch fails, by a rejected \<open>fetch\<close> or by a response whose
  status is not in 200 to 299, the suggestion list is cleared, loading is false, the
  error is logged with \<open>console.error\<close>, and nothing is thrown to the caller: the
  promise of the async function fulfils and no exception is left uncaught.
\<close>

theorem fetch_failure_handled:
  assumes "out = Rejected \<or> (\<exists>status body. out = Responded status body \<and> \<not> response_ok status)"
    and "i < length (inflight s)"
  shows "suggestions (step p s (Settle i out)) = [] \<and>
         isLoading (step p s (Settle i out)) = False \<and>
         console (step p s (Settle i out)) =
           console s @ [case out of Rejected \<Rightarrow> NetworkError
                        | Responded status body \<Rightarrow> ApiRequestFailed status] \<and>
         uncaught (step p s (Settle i out)) = uncaught s \<and>
         snd (resume out s) = None"
  using assms
  by (auto simp: settle_resume resume_def try_block_def)

theorem fetch_failure_handled_witness:
  "suggestions (step home_page loading_one (Settle 0 Rejected)) = [] \<and>
   \<not> isLoading (step home_page loading_one (Settle 0 Rejected)) \<and>
   console (step home_page loading_one (Settle 0 Rejected)) = [NetworkError] \<and>
   uncaught (step home_page loading_one (Settle 0 Rejected)) = [] \<and>
   suggestions (step home_page loading_one (Settle 0 (Responded 500 None))) = [] \<and>
   \<not> isLoading (step home_page loading_one (Settle 0 (Responded 500 None))) \<and>
   console (step home_page loading_one (Settle 0 (Responded 500 None)))
     = [ApiRequestFailed 500] \<and>
   uncaught (step home_page loading_one (Settle 0 (Responded 500 None))) = []"
proof -
  have a: "0 < length (inflight loading_one)" "console loading_one = []"
    "uncaught loading_one = []" "isLoading loading_one"
    by code_simp+
  have b: "\<not> response_ok 500"
    by (simp add: response_ok_def)
  show ?thesis
    using a b fetch_failure_handled[of Rejected 0 loading_one home_page]
      fetch_failure_handled[of "Responded 500 None" 0 loading_one home_page]
    by simp
qed

text \<open>
  C8, as stated. No fetch with a successful status and an unparsable body leaves a
  rejection behind: \<open>response.json()\<close> is awaited inside the \<open>try\<close> block, so its
  failure reaches the \<open>catch\<close> clause.
\<close>

theorem parse_failure_claim_counterexample:
  "\<not> (\<exists>status s. response_ok status \<and> snd (resume (Responded status None) s) \<noteq> None)"
  by (simp add: resume_fulfils)

text \<open>
  C8, amended. For every fetch whose status is successful but whose body fails to
  parse, the parsing failure is caught and takes the same path as any other failure:
  it is logged, the suggestion list is cleared, loading is false, and nothing
  propagates.
\<close>

theorem parse_failure_caught:
  assumes "response_ok status" and "i < length (inflight s)"
  shows "resume (Responded status None) s =
           (s\<lparr>console := console s @ [JsonSyntaxError], suggestions := [],
               isLoading := False\<rparr>, None) \<and>
         suggestions (step p s (Settle i (Responded status None))) = [] \<and>
         isLoading (step p s (Settle i (Responded status None))) = False \<and>
         console (step p s (Settle i (Responded status None)))
           = console s @ [JsonSyntaxError] \<and>
         uncaught (step p s (Settle i (Responded status None))) = uncaught s"
  using assms
  by (simp add: settle_resume resume_def try_block_def)

theorem parse_failure_caught_witness:
  "response_ok 200 \<and>
   suggestions (step home_page loading_one (Settle 0 (Responded 200 None))) = [] \<and>
   \<not> isLoading (step home_page loading_one (Settle 0 (Responded 200 None))) \<and>
   console (step home_page loading_one (Settle 0 (Responded 200 None)))
     = [JsonSyntaxError] \<and>
   uncaught (step home_page loading_one (Settle 0 (Responded 200 None))) = []"
proof -
  have a: "0 < length (inflight loading_one)" "console loading_one = []"
    "uncaught loading_one = []"
    by code_simp+
  have b: "response_ok 200"
    by (simp add: response_ok_def)
  show ?thesis
    using a b parse_failure_caught[OF b a(1), of home_page]
    by simp
qed

subsection \<open>Short input\<close>

lemma fetchSuggestions_short:
  "length (trim input) \<le> 1 \<Longrightarrow>
   fetchSuggestions input s = s\<lparr>invoked := invoked s @ [input], suggestions := []\<rparr>"
  by (simp add: fetchSuggestions_def Let_def)

text \<open>
  C5, as stated. After the list for \<open>cse\<close> has arrived, changing the input to the one
  character \<open>c\<close> does not clear the list: it is still there right after the change and
  299 ms later.
\<close>

theorem short_input_claim_counterexample:
  "length (trim (js ''c'')) \<le> 1 \<and>
   suggestions (run home_page
      [Change (js ''cse''), Elapse 300, Settle 0 (Responded 200 (Some [os_course])),
       Change (js ''c'')]) = [os_course] \<and>
   suggestions (run home_page
      [Change (js ''cse''), Elapse 300, Settle 0 (Responded 200 (Some [os_course])),
       Change (js ''c''), Elapse 299]) = [os_course]"
  by code_simp

text \<open>
  C5, amended. For every input whose trimmed length is at most 1, no network call is
  made, and the suggestion list is cleared by the debounced call: the input change
  itself leaves the list as it is and starts the 300 ms wait; the list stays unchanged
  while less than 300 ms have passed, and is empty once 300 ms have passed without a
  further change.
\<close>

theorem short_input_cleared_after_wait:
  assumes "length (trim input) \<le> 1"
  shows "suggestions (step p s (Change input)) = suggestions s \<and>
         fetched (step p s (Change input)) = fetched s \<and>
         pending (step p s (Change input)) = Some (wait, input) \<and>
         (\<forall>d < wait.
            suggestions (step p (step p s (Change input)) (Elapse d)) = suggestions s) \<and>
         (\<forall>d \<ge> wait.
            suggestions (step p (step p s (Change input)) (Elapse d)) = [] \<and>
            fetched (step p (step p s (Change input)) (Elapse d)) = fetched s)"
  using assms
  by (simp add: handleInputChange_def elapse_def fetchSuggestions_short)

theorem short_input_cleared_after_wait_witness:
  "length (trim (js ''c'')) \<le> 1 \<and>
   suggestions (step home_page (showing home_page [os_course]) (Change (js ''c'')))
     = [os_course] \<and>
   suggestions (step home_page
      (step home_page (showing home_page [os_course]) (Change (js ''c'')))
      (Elapse 300)) = [] \<and>
   fetched (step home_page
      (step home_page (showing home_page [os_course]) (Change (js ''c'')))
      (Elapse 300)) = []"
proof -
  have a: "length (trim (js ''c'')) \<le> 1"
    by code_simp
  show ?thesis
    using a short_input_cleared_after_wait[OF a, of home_page "showing home_page [os_course]"]
    by (simp add: wait_def showing_def init_def)
qed

subsection \<open>The loading flag\<close>

text \<open>
  C9, as stated. The user types \<open>cse\<close>, the fetch starts, and the user empties the
  input: the raw input is empty and loading is still true.
\<close>

theorem loading_claim_counterexample:
  "searchInput (run home_page [Change (js ''cse''), Elapse 300, Change []]) = [] \<and>
   isLoading (run home_page [Change (js ''cse''), Elapse 300, Change []])"
  by code_simp

lemma fetchSuggestions_loading:
  "isLoading s \<longrightarrow> inflight s \<noteq> [] \<Longrightarrow>
   isLoading (fetchSuggestions input s) \<longrightarrow> inflight (fetchSuggestions input s) \<noteq> []"
  by (simp add: fetchSuggestions_def Let_def split: sum.splits)

lemma settle_loading:
  "isLoading s \<longrightarrow> inflight s \<noteq> [] \<Longrightarrow>
   isLoading (settle i out s) \<longrightarrow> inflight (settle i out s) \<noteq> []"
  by (auto simp: settle_def resume_def split: sum.splits)

lemma step_loading:
  assumes "isLoading s \<longrightarrow> inflight s \<noteq> []"
  shows "isLoading (step p s ev) \<longrightarrow> inflight (step p s ev) \<noteq> []"
proof (cases ev)
  case (Change input)
  with assms show ?thesis by (simp add: handleInputChange_def)
next
  case (Elapse d)
  show ?thesis
  proof (cases "pending s")
    case None
    with assms Elapse show ?thesis by (simp add: elapse_def)
  next
    case (Some a)
    obtain r input where a: "a = (r, input)" by (cases a)
    have "isLoading (s\<lparr>pending := None\<rparr>) \<longrightarrow> inflight (s\<lparr>pending := None\<rparr>) \<noteq> []"
      using assms by simp
    from fetchSuggestions_loading[OF this, of input] assms Elapse Some a
    show ?thesis by (simp add: elapse_def)
  qed
next
  case (Settle i out)
  with settle_loading[OF assms] show ?thesis by simp
next
  case (ClickItem i)
  with assms show ?thesis by (simp add: handleSearch_loading)
next
  case PressEnter
  with assms show ?thesis
    by (simp add: selectFirst_def handleSearch_loading split: list.splits)
next
  case ClickIcon
  with assms show ?thesis
    by (simp add: selectFirst_def handleSearch_loading split: list.splits)
next
  case (NewInitialValue v)
  with assms show ?thesis by simp
qed

lemma foldl_step_loading:
  "isLoading s \<longrightarrow> inflight s \<noteq> [] \<Longrightarrow>
   isLoading (foldl (step p) s evs) \<longrightarrow> inflight (foldl (step p) s evs) \<noteq> []"
proof (induction evs arbitrary: s)
  case Nil
  then show ?case by simp
next
  case (Cons ev evs)
  from Cons.IH[OF step_loading[OF Cons.prems]] show ?case by simp
qed

text \<open>
  C9, amended. In every reachable state, loading is true only while at least one fetch
  is outstanding, whichever input started it. An input change, also to an empty or
  short text, leaves loading as it is; and so does the passing of time while the
  pending debounced text has a trimmed length of at most 1.
\<close>

theorem loading_only_while_outstanding:
  "(isLoading (run p evs) \<longrightarrow> inflight (run p evs) \<noteq> []) \<and>
   isLoading (step p s (Change input)) = isLoading s \<and>
   (pending s = Some (r, input) \<and> length (trim input) \<le> 1 \<longrightarrow>
      isLoading (step p s (Elapse d)) = isLoading s)"
proof -
  have "isLoading (run p evs) \<longrightarrow> inflight (run p evs) \<noteq> []"
    using foldl_step_loading[of "init p" p evs]
    by (simp add: run_def init_def)
  moreover have "isLoading (step p s (Change input)) = isLoading s"
    by (simp add: handleInputChange_def)
  moreover have "pending s = Some (r, input) \<and> length (trim input) \<le> 1 \<longrightarrow>
      isLoading (step p s (Elapse d)) = isLoading s"
    by (simp add: elapse_def fetchSuggestions_short)
  ultimately show ?thesis by blast
qed

theorem loading_only_while_outstanding_witness:
  "isLoading (run home_page [Change (js ''cse''), Elapse 300]) \<and>
   inflight (run home_page [Change (js ''cse''), Elapse 300]) \<noteq> [] \<and>
   isLoading (step home_page loading_one (Change [])) \<and>
   pending (step home_page loading_one (Change [])) = Some (300, []) \<and>
   isLoading (step home_page (step home_page loading_one (Change [])) (Elapse 300))"
proof -
  have a: "isLoading (run home_page [Change (js ''cse''), Elapse 300])"
    "isLoading loading_one"
    "pending (step home_page loading_one (Change [])) = Some (300, [])"
    "length (trim []) \<le> 1"
    by code_simp+
  show ?thesis
    using a
      loading_only_while_outstanding[where p = home_page
        and evs = "[Change (js ''cse''), Elapse 300]" and s = loading_one
        and input = "[]"]
      loading_only_while_outstanding[where p = home_page
        and s = "step home_page loading_one (Change [])" and input = "[]"
        and r = 300 and d = 300]
    by simp
qed

subsection \<open>Overlapping fetches\<close>

text \<open>
  C1, as stated. The fetch for \<open>cs\<close> is in flight when the input becomes \<open>jane\<close> and a
  second fetch starts. The second response arrives first and is shown; the first
  response arrives afterwards and replaces it, although the input is still \<open>jane\<close>.
\<close>

theorem race_claim_counterexample:
  "searchInput second_answered = js ''jane'' \<and>
   fetched second_answered =
     [js ''/api/courses/search?query=cs'', js ''/api/courses/search?query=jane''] \<and>
   inflight second_answered = [js ''/api/courses/search?query=cs''] \<and>
   suggestions second_answered = [jane_smith] \<and>
   searchInput (step home_page second_answered (Settle 0 (Responded 200 (Some [os_course]))))
     = js ''jane'' \<and>
   suggestions (step home_page second_answered (Settle 0 (Responded 200 (Some [os_course]))))
     = [os_course]"
  by code_simp

text \<open>
  C1, amended. Every successful response is applied when it arrives, whatever the
  current input and whatever the order of the requests: the suggestion list is the
  data of the response that arrived last. No result is discarded as stale.
\<close>

theorem last_response_wins:
  assumes "i < length (inflight s)" and "response_ok status"
  shows "suggestions (step p s (Settle i (Responded status (Some data)))) = data"
  using assms
  by (simp add: settle_def resume_def try_block_def)

theorem last_response_wins_witness:
  "suggestions (step home_page second_answered (Settle 0 (Responded 200 (Some [os_course]))))
     = [os_course]"
proof -
  have a: "0 < length (inflight second_answered)"
    by code_simp
  have b: "response_ok 200"
    by (simp add: response_ok_def)
  show ?thesis
    using last_response_wins[OF a b, of home_page "[os_course]"] .
qed

subsection \<open>Debounce\<close>

text \<open>During a burst whose gaps are all shorter than the wait, only the input text and
  the timer change.\<close>

lemma burst_quiet:
  "\<forall>(x, g) \<in> set xs. g < wait \<Longrightarrow>
   \<exists>inp pd. foldl (step p) s (burst xs) = s\<lparr>searchInput := inp, pending := pd\<rparr>"
proof (induction xs arbitrary: s)
  case Nil
  have "s = s\<lparr>searchInput := searchInput s, pending := pending s\<rparr>" by simp
  then show ?case by (metis burst.simps(1) foldl_Nil)
next
  case (Cons a xs)
  obtain x g where a: "a = (x, g)" by (cases a)
  with Cons.prems have g: "g < wait" and rest: "\<forall>(x, g) \<in> set xs. g < wait" by auto
  let ?s1 = "s\<lparr>searchInput := x, pending := Some (wait - g, x)\<rparr>"
  have s1: "step p (step p s (Change x)) (Elapse g) = ?s1"
    using g by (simp add: handleInputChange_def elapse_def)
  from Cons.IH[OF rest, of ?s1] obtain inp pd where
    "foldl (step p) ?s1 (burst xs) = ?s1\<lparr>searchInput := inp, pending := pd\<rparr>" by blast
  then have "foldl (step p) s (burst (a # xs)) = s\<lparr>searchInput := inp, pending := pd\<rparr>"
    using a s1 by simp
  then show ?case by blast
qed

lemma burst_then_fire:
  assumes "\<forall>(x, g) \<in> set xs. g < wait" and "wait \<le> d"
  shows "foldl (step p) s (burst xs @ [Change final, Elapse d]) =
         fetchSuggestions final (s\<lparr>searchInput := final, pending := None\<rparr>)"
proof -
  from burst_quiet[OF assms(1), of p s] obtain inp pd where
    q: "foldl (step p) s (burst xs) = s\<lparr>searchInput := inp, pending := pd\<rparr>" by blast
  show ?thesis
    using assms(2) by (simp add: q handleInputChange_def elapse_def)
qed

text \<open>
  C4, as stated. A burst \<open>cs\<close>, then \<open>c\<close> 100 ms later, then quiet: no query is issued,
  because the final text is too short.
\<close>

theorem debounce_claim_counterexample:
  "(100 :: nat) < wait \<and>
   invoked (run home_page (burst [(js ''cs'', 100)] @ [Change (js ''c''), Elapse 300]))
     = [js ''c''] \<and>
   fetched (run home_page (burst [(js ''cs'', 100)] @ [Change (js ''c''), Elapse 300])) = []"
  by code_simp

text \<open>
  C4, amended. For every sequence of input changes whose consecutive gaps are all
  shorter than 300 ms, followed by 300 ms without a change, the debounced function
  runs exactly once, with the final text. It issues exactly one query, for the
  trimmed, URL-encoded final text, when the trimmed final text is longer than 1 code
  unit (and encodable), and no query otherwise.
\<close>

theorem debounce_collapse:
  assumes "\<forall>(x, g) \<in> set xs. g < wait" and "wait \<le> d"
  shows "invoked (foldl (step p) s (burst xs @ [Change final, Elapse d]))
           = invoked s @ [final] \<and>
         fetched (foldl (step p) s (burst xs @ [Change final, Elapse d])) =
           fetched s @
             (if 1 < length (trim final) then
                (case encodeURIComponent (trim final) of
                   Inl e \<Rightarrow> []
                 | Inr q \<Rightarrow> [js ''/api/courses/search?query='' @ q])
              else [])"
  unfolding burst_then_fire[OF assms]
  by (simp add: fetchSuggestions_def Let_def split: sum.splits)

theorem debounce_collapse_witness:
  "invoked (run home_page
      (burst [(js ''c'', 120), (js ''cs'', 299)] @ [Change (js ''cse ''), Elapse 300]))
     = [js ''cse ''] \<and>
   fetched (run home_page
      (burst [(js ''c'', 120), (js ''cs'', 299)] @ [Change (js ''cse ''), Elapse 300]))
     = [js ''/api/courses/search?query=cse'']"
proof -
  have a: "\<forall>(x, g) \<in> set [(js ''c'', 120), (js ''cs'', 299)]. g < wait"
    by (simp add: wait_def)
  have b: "wait \<le> 300"
    by (simp add: wait_def)
  have c: "1 < length (trim (js ''cse ''))"
    "encodeURIComponent (trim (js ''cse '')) = Inr (js ''cse'')"
    "js ''/api/courses/search?query='' @ js ''cse'' = js ''/api/courses/search?query=cse''"
    by code_simp+
  show ?thesis
    using debounce_collapse[OF a b, of home_page "init home_page" "js ''cse ''"] c
    by (simp add: run_def init_def)
qed

end
